theory Spec2Isabelle
  imports Main
begin

section \<open>The mount point state machine of the virtual media daemon\<close>

text \<open>
  This theory embeds \<^verbatim>\<open>src/state_machine.hpp\<close>: the states and events of
  \<^verbatim>\<open>MountPointStateMachine\<close>, the transition operators of every event,
  \<^verbatim>\<open>emitEvent\<close> with the \<^verbatim>\<open>onEnter\<close> hooks, and the D-Bus facade built in
  \<^verbatim>\<open>RegisterDbusEvent\<close> (property getters, \<^verbatim>\<open>Mount\<close>, \<^verbatim>\<open>Unmount\<close>).

  Conventions of the embedding.
  \<^item> The helpers the header calls but does not define (\<^verbatim>\<open>SmbShare\<close>, \<^verbatim>\<open>UsbGadget\<close>,
    \<^verbatim>\<open>Process\<close>, \<^verbatim>\<open>std::filesystem\<close>, \<^verbatim>\<open>sendEvent\<close>) are calls into the
    environment. Each call is appended to the field \<open>effects\<close> of the machine, oldest
    first, and its outcome is read from a record \<open>Env\<close>. The field \<open>effects\<close> is a
    history added by the model; the C++ class has no such member.
  \<^item> Argument vectors of the spawned programs and the remote path handed to the CIFS
    helper are not recorded, and log messages are left out.
  \<^item> A C++ exception and an access through an empty \<^verbatim>\<open>std::optional\<close> are values of
    type \<open>fault\<close>; a function that may meet one returns \<open>fault + 'a\<close>.
\<close>

subsection \<open>Data\<close>

datatype errc =
  invalid_argument | io_error | device_or_resource_busy | operation_canceled
  | operation_not_supported

text \<open>The value of a \<^verbatim>\<open>std::errc\<close> enumerator is the POSIX errno of the same name
  (Linux numbering), which is what \<^verbatim>\<open>static_cast<int>\<close> yields.\<close>

fun errc_value :: "errc \<Rightarrow> int" where
  "errc_value invalid_argument = 22"
| "errc_value io_error = 5"
| "errc_value device_or_resource_busy = 16"
| "errc_value operation_canceled = 125"
| "errc_value operation_not_supported = 95"

definition EPERM :: int where
  "EPERM = 1"

definition EINVAL :: int where
  "EINVAL = 22"

record Error =
  code :: errc
  message :: string

datatype fault =
  InvalidStateError string
  | EmptyOptionalAccess

datatype Mode = proxy | legacy

text \<open>Modelled from the spec: \<^verbatim>\<open>StateChange\<close> is declared in \<^verbatim>\<open>system.hpp\<close>, which
  is not among the sources; the spec names the notifications \<open>inserted\<close> and
  \<open>removed\<close>. The integer value of an enumerator is a field of \<open>Env\<close>.\<close>

datatype StateChange = inserted | removed

type_synonym NBDDevice = string

type_synonym Process = nat

datatype State =
  InitialState
  | ReadyState "Error option"
  | ActivatingState
  | WaitingForGadgetState "Process option"
  | ActiveState "Process option"
  | WaitingForProcessEndState "Process option"

datatype Event =
  RegisterDbusEvent
  | MountEvent
  | UnmountEvent
  | SubprocessStoppedEvent
  | ActivationStartedEvent
  | UdevStateChangeEvent StateChange

record Target =
  imgUrl :: string
  rw :: bool
  mountDir :: "string option"
  credentials :: "(string \<times> string) option"

record MountPoint =
  mode :: Mode
  nbdDevice :: NBDDevice
  unixSocket :: string

datatype MESSAGE_TYPE = RESOURCE_CREATED | RESOURCE_DELETED

datatype Effect =
  AddInterfaces string
  | ForceUdevChange
  | CreateMountDir string
  | SmbMount string bool
  | RemoveAll string
  | SmbUnmount string
  | RemoveSocket string
  | CreateVolatileFile
  | Spawn string
  | StopProcess Process
  | UsbGadgetConfigure StateChange "bool option"
  | SendEvent MESSAGE_TYPE string
  | TimerWait nat

record MountPointStateMachine =
  name :: string
  config :: MountPoint
  target :: "Target option"
  state :: State
  exitCode :: int
  effects :: "Effect list"

text \<open>The outcomes of the environment during one event: what
  \<^verbatim>\<open>SmbShare::createMountDir\<close> returns for a slot name, whether \<^verbatim>\<open>SmbShare::mount\<close>
  succeeds, whether the slot's socket file exists and can be removed, whether
  \<^verbatim>\<open>Process::spawn\<close> succeeds and which process it creates, whether the weak process
  reference can still be locked, and what \<^verbatim>\<open>UsbGadget::configure\<close> returns.\<close>

record Env =
  createMountDir :: "string \<Rightarrow> string option"
  smbMount :: bool
  socketExists :: bool
  socketRemove :: bool
  spawnOk :: bool
  newProcess :: Process
  lockProcess :: bool
  usbGadgetConfigure :: "StateChange \<Rightarrow> int"
  devStateInt :: "StateChange \<Rightarrow> nat"

definition perform :: "Effect \<Rightarrow> MountPointStateMachine \<Rightarrow> MountPointStateMachine" where
  "perform x m = m\<lparr>effects := effects m @ [x]\<rparr>"

definition enter :: "State \<Rightarrow> MountPointStateMachine \<Rightarrow> MountPointStateMachine" where
  "enter s m = m\<lparr>state := s\<rparr>"

definition ReadyError :: "errc \<Rightarrow> string \<Rightarrow> State" where
  "ReadyError ec msg = ReadyState (Some \<lparr>code = ec, message = msg\<rparr>)"

subsection \<open>Helper functions of the machine\<close>

definition proxyObjectPath :: string where
  "proxyObjectPath = ''/xyz/openbmc_project/VirtualMedia/Proxy/''"

definition legacyObjectPath :: string where
  "legacyObjectPath = ''/xyz/openbmc_project/VirtualMedia/Legacy/''"

definition getObjectPath :: "MountPointStateMachine \<Rightarrow> string" where
  "getObjectPath m =
     (if mode (config m) = proxy then proxyObjectPath else legacyObjectPath)"

definition removeUsbGadget ::
  "Env \<Rightarrow> MountPointStateMachine \<Rightarrow> bool \<times> MountPointStateMachine" where
  "removeUsbGadget env m =
     (let m1 = perform (UsbGadgetConfigure removed None) m
      in if usbGadgetConfigure env removed \<noteq> 0 then (False, m1) else (True, m1))"

definition stopProcess ::
  "Env \<Rightarrow> Process option \<Rightarrow> MountPointStateMachine \<Rightarrow> MountPointStateMachine" where
  "stopProcess env process m =
     (case process of
        Some p \<Rightarrow> if lockProcess env then perform (StopProcess p) m else m
      | None \<Rightarrow> m)"

definition checkUrl :: "string \<Rightarrow> string \<Rightarrow> bool" where
  "checkUrl urlScheme imageUrl = (urlScheme = take (length urlScheme) imageUrl)"

definition isHttpsUrl :: "string \<Rightarrow> bool" where
  "isHttpsUrl imageUrl = checkUrl ''https://'' imageUrl"

definition isCifsUrl :: "string \<Rightarrow> bool" where
  "isCifsUrl imageUrl = checkUrl ''smb://'' imageUrl"

subsection \<open>Activation (\<^verbatim>\<open>ActivationStartedEvent\<close>)\<close>

text \<open>\<^verbatim>\<open>spawnNbdKit\<close>: \<^verbatim>\<open>std::make_shared\<close> does not return null, so the first
  check of the source never fires; a socket file left over is removed, and the server is
  spawned. The result is the process, or nothing when the socket could not be removed
  or the spawn failed. The overload for a URL first writes the password to a volatile
  file when the target has credentials.\<close>

definition spawnNbdKit ::
  "Env \<Rightarrow> MountPointStateMachine \<Rightarrow> Process option \<times> MountPointStateMachine" where
  "spawnNbdKit env m =
     (if socketExists env \<and> \<not> socketRemove env
      then (None, perform (RemoveSocket (unixSocket (config m))) m)
      else
        (let m1 = (if socketExists env
                   then perform (RemoveSocket (unixSocket (config m))) m else m);
             m2 = perform (Spawn ''/usr/sbin/nbdkit'') m1
         in if \<not> spawnOk env then (None, m2) else (Some (newProcess env), m2)))"

definition spawnNbdKitUrl ::
  "Env \<Rightarrow> Target \<Rightarrow> MountPointStateMachine \<Rightarrow> Process option \<times> MountPointStateMachine" where
  "spawnNbdKitUrl env t m =
     (case credentials t of
        Some c \<Rightarrow> spawnNbdKit env (perform CreateVolatileFile m)
      | None \<Rightarrow> spawnNbdKit env m)"

definition activateProxyMode :: "Env \<Rightarrow> MountPointStateMachine \<Rightarrow> MountPointStateMachine" where
  "activateProxyMode env m =
     (let m1 = perform (Spawn ''/usr/sbin/nbd-client'') m
      in if \<not> spawnOk env
         then enter (ReadyError operation_canceled ''Failed to spawn process'') m1
         else enter (WaitingForGadgetState (Some (newProcess env))) m1)"

definition mountSmbShare ::
  "Env \<Rightarrow> Target \<Rightarrow> MountPointStateMachine \<Rightarrow> MountPointStateMachine" where
  "mountSmbShare env t m =
     (let m1 = perform (CreateMountDir (name m)) m
      in case createMountDir env (name m) of
           None \<Rightarrow> enter (ReadyError io_error ''Failed to create mount directory'') m1
         | Some d \<Rightarrow>
             (let m2 = perform (SmbMount d (rw t)) m1
              in if \<not> smbMount env
                 then enter (ReadyError invalid_argument ''Failed to mount CIFS share'')
                        (perform (RemoveAll d) m2)
                 else
                   (case spawnNbdKit env m2 of
                      (None, m3) \<Rightarrow>
                        enter (ReadyError operation_canceled ''Unable to setup NbdKit'')
                          (perform (SmbUnmount d) m3)
                    | (Some p, m3) \<Rightarrow>
                        enter (WaitingForGadgetState (Some p))
                          (m3\<lparr>target := Some (t\<lparr>mountDir := Some d\<rparr>)\<rparr>))))"

definition mountHttpsShare ::
  "Env \<Rightarrow> Target \<Rightarrow> MountPointStateMachine \<Rightarrow> MountPointStateMachine" where
  "mountHttpsShare env t m =
     (case spawnNbdKitUrl env t m of
        (None, m1) \<Rightarrow> enter (ReadyError invalid_argument ''Failed to mount HTTPS share'') m1
      | (Some p, m1) \<Rightarrow> enter (WaitingForGadgetState (Some p)) m1)"

text \<open>\<^verbatim>\<open>activateLegacyMode\<close> reads \<^verbatim>\<open>state.machine.target->imgUrl\<close> without
  testing the optional; with no target that access is the fault.\<close>

definition activateLegacyMode ::
  "Env \<Rightarrow> MountPointStateMachine \<Rightarrow> fault + MountPointStateMachine" where
  "activateLegacyMode env m =
     (case target m of
        None \<Rightarrow> Inl EmptyOptionalAccess
      | Some t \<Rightarrow>
          if isCifsUrl (imgUrl t) then Inr (mountSmbShare env t m)
          else if isHttpsUrl (imgUrl t) then Inr (mountHttpsShare env t m)
          else Inr (enter (ReadyError invalid_argument ''URL not recognized'') m))"

subsection \<open>The transition operators\<close>

text \<open>\<^verbatim>\<open>emitEvent\<close> takes the event as \<^verbatim>\<open>BasicEvent&&\<close> and hands it to
  \<^verbatim>\<open>std::visit\<close>, so the call operator is looked up in \<^verbatim>\<open>BasicEvent\<close>: one virtual
  operator for each state, which logs the unexpected event and returns the state as it
  is. An event class replaces that behaviour for the states it overrides with a
  non-template operator. A member template (\<^verbatim>\<open>template <typename AnyState>\<close> in
  \<^verbatim>\<open>RegisterDbusEvent\<close>, \<^verbatim>\<open>MountEvent\<close>, \<^verbatim>\<open>UdevStateChangeEvent\<close>) overrides no
  virtual function and is not reached through \<^verbatim>\<open>emitEvent\<close>; for those states the
  operator of \<^verbatim>\<open>BasicEvent\<close> runs. Each function below lists the overriding
  operators of its event as cases on the state; the remaining states are the case of
  \<^verbatim>\<open>BasicEvent\<close>.\<close>

fun RegisterDbus :: "MountPointStateMachine \<Rightarrow> MountPointStateMachine" where
  "RegisterDbus m =
     (case state m of
        InitialState \<Rightarrow>
          enter (ReadyState None)
            (perform ForceUdevChange (perform (AddInterfaces (getObjectPath m @ name m)) m))
      | _ \<Rightarrow> m)"

fun Mount :: "MountPointStateMachine \<Rightarrow> MountPointStateMachine" where
  "Mount m =
     (case state m of
        ReadyState e \<Rightarrow> enter ActivatingState m
      | _ \<Rightarrow> m)"

fun Unmount :: "Env \<Rightarrow> MountPointStateMachine \<Rightarrow> fault + MountPointStateMachine" where
  "Unmount env m =
     (case state m of
        ActivatingState \<Rightarrow> Inr (enter (ReadyState None) m)
      | WaitingForGadgetState p \<Rightarrow>
          Inr (enter (WaitingForProcessEndState p) (stopProcess env p m))
      | ActiveState p \<Rightarrow>
          (case removeUsbGadget env m of
             (False, m1) \<Rightarrow>
               Inr (enter (ReadyError device_or_resource_busy ''Unable to unmount gadget'') m1)
           | (True, m1) \<Rightarrow>
               Inr (enter (WaitingForProcessEndState p)
                     (perform (SendEvent RESOURCE_DELETED (getObjectPath m @ name m))
                       (stopProcess env p m1))))
      | WaitingForProcessEndState p \<Rightarrow>
          Inl (InvalidStateError ''Could not unmount on empty slot'')
      | ReadyState e \<Rightarrow> Inl (InvalidStateError ''Could not unmount on empty slot'')
      | InitialState \<Rightarrow> Inr m)"

fun SubprocessStopped :: "Env \<Rightarrow> MountPointStateMachine \<Rightarrow> MountPointStateMachine" where
  "SubprocessStopped env m =
     (case state m of
        ActivatingState \<Rightarrow> enter (ReadyState None) m
      | WaitingForGadgetState p \<Rightarrow>
          enter (ReadyError io_error ''Process ended prematurely'') (stopProcess env p m)
      | ActiveState p \<Rightarrow>
          (case removeUsbGadget env m of
             (False, m1) \<Rightarrow>
               enter (ReadyError device_or_resource_busy ''Unable to unmount gadget'') m1
           | (True, m1) \<Rightarrow> enter (ReadyState None) m1)
      | WaitingForProcessEndState p \<Rightarrow> enter (ReadyState None) m
      | _ \<Rightarrow> m)"

fun ActivationStarted :: "Env \<Rightarrow> MountPointStateMachine \<Rightarrow> fault + MountPointStateMachine" where
  "ActivationStarted env m =
     (case state m of
        ActivatingState \<Rightarrow>
          if mode (config m) = proxy then Inr (activateProxyMode env m)
          else activateLegacyMode env m
      | _ \<Rightarrow> Inr m)"

text \<open>In \<^verbatim>\<open>WaitingForGadget\<close> the gadget is configured with the target's flag, or
  with \<^verbatim>\<open>false\<close> when there is no target. The message of the other branch is the
  literal advanced by the integer value of the notification
  (\<^verbatim>\<open>"Unexpected udev event: " + static_cast<int>(devState)\<close> adds to a pointer).\<close>

fun UdevStateChange ::
  "Env \<Rightarrow> StateChange \<Rightarrow> MountPointStateMachine \<Rightarrow> MountPointStateMachine" where
  "UdevStateChange env devState m =
     (case state m of
        WaitingForGadgetState p \<Rightarrow>
          if devState = inserted
          then
            (let m1 = perform (UsbGadgetConfigure devState
                         (Some (case target m of Some t \<Rightarrow> rw t | None \<Rightarrow> False))) m
             in if usbGadgetConfigure env devState = 0
                then enter (ActiveState p)
                       (perform (SendEvent RESOURCE_CREATED (getObjectPath m @ name m)) m1)
                else enter (ReadyError device_or_resource_busy ''Unable to configure gadget'') m1)
          else enter (ReadyError operation_not_supported
                        (drop (devStateInt env devState) ''Unexpected udev event: '')) m
      | ReadyState e \<Rightarrow> m
      | _ \<Rightarrow> m)"

text \<open>\<^verbatim>\<open>std::visit(event, state)\<close>: the next state, with the calls the operator
  made. An exception leaves the operator before the state is assigned.\<close>

fun visit :: "Env \<Rightarrow> Event \<Rightarrow> MountPointStateMachine \<Rightarrow> fault + MountPointStateMachine" where
  "visit env RegisterDbusEvent m = Inr (RegisterDbus m)"
| "visit env MountEvent m = Inr (Mount m)"
| "visit env UnmountEvent m = Unmount env m"
| "visit env SubprocessStoppedEvent m = Inr (SubprocessStopped env m)"
| "visit env ActivationStartedEvent m = ActivationStarted env m"
| "visit env (UdevStateChangeEvent devState) m = Inr (UdevStateChange env devState m)"

subsection \<open>\<^verbatim>\<open>emitEvent\<close> and the \<^verbatim>\<open>onEnter\<close> hooks\<close>

text \<open>\<^verbatim>\<open>ReadyState::onEnter\<close>: with a target, unmount its scratch directory if it
  has one, then drop the target.\<close>

definition ReadyState_onEnter :: "MountPointStateMachine \<Rightarrow> MountPointStateMachine" where
  "ReadyState_onEnter m =
     (case target m of
        Some t \<Rightarrow>
          (case mountDir t of
             Some d \<Rightarrow> perform (SmbUnmount d) m
           | None \<Rightarrow> m)\<lparr>target := None\<rparr>
      | None \<Rightarrow> m)"

text \<open>\<^verbatim>\<open>emitEvent\<close> assigns the state the event returns and calls \<^verbatim>\<open>onEnter\<close> on
  it, also when the state is the one it was. \<^verbatim>\<open>ActivatingState::onEnter\<close> resets the
  exit code and emits \<^verbatim>\<open>ActivationStartedEvent\<close>, a nested \<^verbatim>\<open>emitEvent\<close>; the
  other states inherit the empty hook.\<close>

function emitEvent ::
  "Env \<Rightarrow> Event \<Rightarrow> MountPointStateMachine \<Rightarrow> fault + MountPointStateMachine" where
  "emitEvent env event m =
     (case visit env event m of
        Inl f \<Rightarrow> Inl f
      | Inr m1 \<Rightarrow>
          (case state m1 of
             ReadyState e \<Rightarrow> Inr (ReadyState_onEnter m1)
           | ActivatingState \<Rightarrow>
               emitEvent env ActivationStartedEvent (m1\<lparr>exitCode := - 1\<rparr>)
           | _ \<Rightarrow> Inr m1))"
  by pat_completeness auto
termination
proof (relation "measure (\<lambda>(env, event, m).
         if event = ActivationStartedEvent \<and> state m = ActivatingState then 0 else 1)")
  show "wf (measure (\<lambda>(env, event, m).
         if event = ActivationStartedEvent \<and> state m = ActivatingState then 0 else (1::nat)))"
    by simp
next
  fix env :: Env and event :: Event and m m1 :: MountPointStateMachine
  assume v: "visit env event m = Inr m1" and s: "state m1 = ActivatingState"
  have "\<not> (event = ActivationStartedEvent \<and> state m = ActivatingState)"
    using v s
    by (auto simp: activateProxyMode_def activateLegacyMode_def mountSmbShare_def
          mountHttpsShare_def enter_def ReadyError_def Let_def
          split: if_splits option.splits prod.splits)
  then show "((env, ActivationStartedEvent, m1\<lparr>exitCode := - 1\<rparr>), env, event, m)
      \<in> measure (\<lambda>(env, event, m).
           if event = ActivationStartedEvent \<and> state m = ActivatingState then 0 else 1)"
    using s by simp
qed

declare emitEvent.simps [simp del]

text \<open>The callbacks that reach the machine from outside: the completion callback of a
  spawned process stores the exit code and emits \<^verbatim>\<open>SubprocessStoppedEvent\<close>; the
  device monitor's notification is dropped unless it names the slot's device.\<close>

definition processEnded ::
  "Env \<Rightarrow> int \<Rightarrow> MountPointStateMachine \<Rightarrow> fault + MountPointStateMachine" where
  "processEnded env ec m = emitEvent env SubprocessStoppedEvent (m\<lparr>exitCode := ec\<rparr>)"

definition emitUdevStateChangeEvent ::
  "Env \<Rightarrow> NBDDevice \<Rightarrow> StateChange \<Rightarrow> MountPointStateMachine
     \<Rightarrow> fault + MountPointStateMachine" where
  "emitUdevStateChangeEvent env dev devState m =
     (if nbdDevice (config m) = dev then emitEvent env (UdevStateChangeEvent devState) m
      else Inr m)"

subsection \<open>The D-Bus facade\<close>

text \<open>The property getters registered by \<^verbatim>\<open>addMountPointInterface\<close> and
  \<^verbatim>\<open>addProcessInterface\<close>. \<^verbatim>\<open>ImageURL\<close> reads the target only in
  \<^verbatim>\<open>ActiveState\<close>; \<^verbatim>\<open>WriteProtected\<close> reads \<^verbatim>\<open>machine.target->rw\<close> at once.\<close>

definition ImageURL_get :: "MountPointStateMachine \<Rightarrow> fault + string" where
  "ImageURL_get m =
     (case state m of
        ActiveState p \<Rightarrow>
          (case target m of None \<Rightarrow> Inl EmptyOptionalAccess | Some t \<Rightarrow> Inr (imgUrl t))
      | _ \<Rightarrow> Inr [])"

definition WriteProtected_get :: "MountPointStateMachine \<Rightarrow> fault + bool" where
  "WriteProtected_get m =
     (case target m of
        None \<Rightarrow> Inl EmptyOptionalAccess
      | Some t \<Rightarrow> if \<not> rw t then Inr True else Inr False)"

definition Active_get :: "MountPointStateMachine \<Rightarrow> bool" where
  "Active_get m = (case state m of ActiveState p \<Rightarrow> True | _ \<Rightarrow> False)"

definition ExitCode_get :: "MountPointStateMachine \<Rightarrow> int" where
  "ExitCode_get m = exitCode m"

text \<open>The outcome of a method call: the value returned, an
  \<^verbatim>\<open>sdbusplus::exception::SdBusError\<close> with its code and message, or a fault that
  nothing in the method catches.\<close>

datatype IpcResult =
  Returned bool
  | SdBusError int string
  | Faulted fault

text \<open>The methods are coroutines: while one waits on its timer the event loop runs
  other handlers on the same machine. A schedule lists, wait by wait, what the loop
  does to the machine during that wait (nothing once the list is used up). A wait is
  \<^verbatim>\<open>timer.expires_from_now(100 ms); timer.async_wait(yield)\<close>.\<close>

type_synonym schedule = "(MountPointStateMachine \<Rightarrow> fault + MountPointStateMachine) list"

definition async_wait :: "schedule \<Rightarrow> MountPointStateMachine \<Rightarrow> fault + MountPointStateMachine" where
  "async_wait sched m =
     (case sched of
        [] \<Rightarrow> Inr (perform (TimerWait 100) m)
      | f # rest \<Rightarrow> f (perform (TimerWait 100) m))"

text \<open>The loop of \<^verbatim>\<open>handleMount\<close>, with \<^verbatim>\<open>waitCnt\<close> as the first argument.\<close>

fun pollMount :: "nat \<Rightarrow> schedule \<Rightarrow> MountPointStateMachine \<Rightarrow> IpcResult \<times> MountPointStateMachine" where
  "pollMount 0 sched m = (Returned False, m)"
| "pollMount (Suc waitCnt) sched m =
     (case state m of
        ReadyState error \<Rightarrow>
          (case error of
             Some e \<Rightarrow> (SdBusError (errc_value (code e)) (message e), m)
           | None \<Rightarrow> (Returned False, m))
      | ActiveState p \<Rightarrow> (Returned True, m)
      | _ \<Rightarrow>
          (case async_wait sched m of
             Inl f \<Rightarrow> (Faulted f, m)
           | Inr m1 \<Rightarrow> pollMount waitCnt (tl sched) m1))"

definition handleMount ::
  "Env \<Rightarrow> schedule \<Rightarrow> MountPointStateMachine \<Rightarrow> IpcResult \<times> MountPointStateMachine" where
  "handleMount env sched m =
     (case emitEvent env MountEvent m of
        Inl (InvalidStateError what) \<Rightarrow> (SdBusError EPERM what, m)
      | Inl EmptyOptionalAccess \<Rightarrow> (Faulted EmptyOptionalAccess, m)
      | Inr m1 \<Rightarrow> pollMount 120 sched m1)"

text \<open>The loop of \<^verbatim>\<open>Unmount\<close> and the method itself.\<close>

fun pollUnmount :: "nat \<Rightarrow> schedule \<Rightarrow> MountPointStateMachine \<Rightarrow> IpcResult \<times> MountPointStateMachine" where
  "pollUnmount 0 sched m = (Returned True, m)"
| "pollUnmount (Suc waitCnt) sched m =
     (case state m of
        ReadyState error \<Rightarrow> (Returned True, m)
      | _ \<Rightarrow>
          (case async_wait sched m of
             Inl f \<Rightarrow> (Faulted f, m)
           | Inr m1 \<Rightarrow> pollUnmount waitCnt (tl sched) m1))"

definition Unmount_method ::
  "Env \<Rightarrow> schedule \<Rightarrow> MountPointStateMachine \<Rightarrow> IpcResult \<times> MountPointStateMachine" where
  "Unmount_method env sched m =
     (case emitEvent env UnmountEvent m of
        Inl (InvalidStateError what) \<Rightarrow> (SdBusError EPERM what, m)
      | Inl EmptyOptionalAccess \<Rightarrow> (Faulted EmptyOptionalAccess, m)
      | Inr m1 \<Rightarrow> pollUnmount 120 sched m1)"

definition Mount_proxy ::
  "Env \<Rightarrow> schedule \<Rightarrow> MountPointStateMachine \<Rightarrow> IpcResult \<times> MountPointStateMachine" where
  "Mount_proxy env sched m = handleMount env sched m"

text \<open>Modelled from the spec: \<^verbatim>\<open>utils::secureCleanup\<close> is defined in \<^verbatim>\<open>utils.hpp\<close>,
  which is not among the sources; the spec says of it that the raw buffer is zeroized.\<close>

definition secureCleanup :: "char list \<Rightarrow> char list" where
  "secureCleanup buf = replicate (length buf) (CHR 0x00)"

text \<open>A C string read from a position of the buffer: the characters before the first
  NUL.\<close>

definition c_str :: "char list \<Rightarrow> string" where
  "c_str buf = takeWhile (\<lambda>c. c \<noteq> CHR 0x00) buf"

text \<open>The epilogue of the legacy \<^verbatim>\<open>Mount\<close>, on the returning and on the throwing
  path alike: \<^verbatim>\<open>machine.target->credentials.reset()\<close>, which reads the target
  without testing the optional.\<close>

definition resetCredentials ::
  "IpcResult \<times> MountPointStateMachine \<Rightarrow> IpcResult \<times> MountPointStateMachine" where
  "resetCredentials r =
     (case r of (ret, m) \<Rightarrow>
        (case target m of
           None \<Rightarrow> (Faulted EmptyOptionalAccess, m)
         | Some t \<Rightarrow> (ret, m\<lparr>target := Some (t\<lparr>credentials := None\<rparr>)\<rparr>)))"

text \<open>The legacy \<^verbatim>\<open>Mount(imgUrl, rw, fd)\<close>. \<open>fd\<close> is \<open>None\<close> when the variant
  holds the plain integer and \<open>Some data\<close> when it holds a descriptor, \<open>data\<close> being
  the bytes the pipe delivers to the one read. \<open>buf0\<close> is the content of the array
  \<^verbatim>\<open>buf\<close> before the read (its length is \<^verbatim>\<open>utils::secretLimit\<close>, a constant of
  \<^verbatim>\<open>utils.hpp\<close>). The third component of the result is the content of \<^verbatim>\<open>buf\<close> when
  the method leaves the block that declares it; \<open>None\<close> when the block did not run.
  A failing read and what the event loop does while the read is suspended are not
  modelled.\<close>

definition Mount_legacy ::
  "Env \<Rightarrow> char list \<Rightarrow> string \<Rightarrow> bool \<Rightarrow> char list option \<Rightarrow> schedule
     \<Rightarrow> MountPointStateMachine \<Rightarrow> IpcResult \<times> MountPointStateMachine \<times> char list option" where
  "Mount_legacy env buf0 url w fd sched m =
     (let m0 = m\<lparr>target := Some \<lparr>imgUrl = url, rw = w, mountDir = None, credentials = None\<rparr>\<rparr>
      in case fd of
           None \<Rightarrow>
             (case resetCredentials (handleMount env sched m0) of (ret, m1) \<Rightarrow> (ret, m1, None))
         | Some data \<Rightarrow>
             (let sz = min (length data) (length buf0);
                  buf = take sz data @ drop sz buf0;
                  nullCount = count_list (take sz buf) (CHR 0x00)
              in if nullCount \<noteq> 2
                 then (SdBusError EINVAL ''Malformed extra data'', m0, Some buf)
                 else
                   (let user = c_str buf;
                        pass = c_str (drop (length user + 1) buf);
                        m1 = m0\<lparr>target := Some \<lparr>imgUrl = url, rw = w, mountDir = None,
                                                credentials = Some (user, pass)\<rparr>\<rparr>
                    in case resetCredentials (handleMount env sched m1) of
                         (ret, m2) \<Rightarrow> (ret, m2, Some (secureCleanup buf)))))"

section \<open>Properties\<close>

subsection \<open>Vocabulary of the properties\<close>

text \<open>The Redfish events among a list of calls, in order.\<close>

fun sent :: "Effect list \<Rightarrow> (MESSAGE_TYPE \<times> string) list" where
  "sent [] = []"
| "sent (SendEvent t p # xs) = (t, p) # sent xs"
| "sent (x # xs) = sent xs"

definition is_Ready :: "State \<Rightarrow> bool" where
  "is_Ready s = (case s of ReadyState e \<Rightarrow> True | _ \<Rightarrow> False)"

definition is_Active :: "State \<Rightarrow> bool" where
  "is_Active s = (case s of ActiveState p \<Rightarrow> True | _ \<Rightarrow> False)"

text \<open>The active lifecycle of the specification, and its invariant P1: the target is
  set exactly in the states of the active lifecycle.\<close>

definition in_lifecycle :: "State \<Rightarrow> bool" where
  "in_lifecycle s =
     (case s of
        ActivatingState \<Rightarrow> True
      | WaitingForGadgetState p \<Rightarrow> True
      | ActiveState p \<Rightarrow> True
      | WaitingForProcessEndState p \<Rightarrow> True
      | _ \<Rightarrow> False)"

definition P1 :: "MountPointStateMachine \<Rightarrow> bool" where
  "P1 m = (target m \<noteq> None \<longleftrightarrow> in_lifecycle (state m))"

text \<open>A state that an activation ends in.\<close>

definition settled :: "State \<Rightarrow> bool" where
  "settled s =
     (case s of
        WaitingForGadgetState p \<Rightarrow> True
      | ReadyState e \<Rightarrow> e \<noteq> None
      | _ \<Rightarrow> False)"

text \<open>The polling loop of \<^verbatim>\<open>handleMount\<close> stops on a terminal state. The machine
  that poll number \<open>k\<close> looks at is the machine after \<open>k\<close> waits; a poll is pending
  when that machine exists and its state is not terminal. \<open>mount_reply\<close> is the answer
  the specification gives for a terminal state.\<close>

definition terminal :: "State \<Rightarrow> bool" where
  "terminal s = (is_Ready s \<or> is_Active s)"

fun after_waits :: "nat \<Rightarrow> schedule \<Rightarrow> MountPointStateMachine \<Rightarrow> fault + MountPointStateMachine" where
  "after_waits 0 sched m = Inr m"
| "after_waits (Suc k) sched m =
     (case async_wait sched m of
        Inl f \<Rightarrow> Inl f
      | Inr m1 \<Rightarrow> after_waits k (tl sched) m1)"

definition pending :: "fault + MountPointStateMachine \<Rightarrow> bool" where
  "pending r = (case r of Inr m \<Rightarrow> \<not> terminal (state m) | Inl f \<Rightarrow> False)"

definition mount_reply :: "State \<Rightarrow> IpcResult" where
  "mount_reply s =
     (case s of
        ReadyState (Some e) \<Rightarrow> SdBusError (errc_value (code e)) (message e)
      | ActiveState p \<Rightarrow> Returned True
      | _ \<Rightarrow> Returned False)"

subsection \<open>Example slots\<close>

text \<open>Concrete inputs for the worked runs below: an environment in which every helper
  succeeds (the integer values of the udev notifications are not in the sources; the
  example takes 0 and 1), one in which the gadget cannot be removed, a proxy slot and a legacy slot as the constructor leaves
  them, and the machines they pass through.\<close>

definition env_ok :: Env where
  "env_ok =
     \<lparr>createMountDir = (\<lambda>slot. Some (''/tmp/'' @ slot)), smbMount = True,
      socketExists = False, socketRemove = True, spawnOk = True, newProcess = 7,
      lockProcess = True, usbGadgetConfigure = (\<lambda>d. 0),
      devStateInt = (\<lambda>d. case d of inserted \<Rightarrow> 0 | removed \<Rightarrow> 1)\<rparr>"

definition env_busy :: Env where
  "env_busy = env_ok\<lparr>usbGadgetConfigure := (\<lambda>d. 1)\<rparr>"

definition slot_proxy :: MountPointStateMachine where
  "slot_proxy =
     \<lparr>name = ''Slot_0'',
      config = \<lparr>mode = proxy, nbdDevice = ''/dev/nbd0'', unixSocket = ''/run/nbd0.sock''\<rparr>,
      target = None, state = InitialState, exitCode = - 1, effects = []\<rparr>"

definition slot_legacy :: MountPointStateMachine where
  "slot_legacy =
     \<lparr>name = ''Slot_2'',
      config = \<lparr>mode = legacy, nbdDevice = ''/dev/nbd2'', unixSocket = ''/run/nbd2.sock''\<rparr>,
      target = None, state = InitialState, exitCode = - 1, effects = []\<rparr>"

definition proxy_ready :: MountPointStateMachine where
  "proxy_ready =
     slot_proxy\<lparr>state := ReadyState None,
       effects := [AddInterfaces ''/xyz/openbmc_project/VirtualMedia/Proxy/Slot_0'',
                   ForceUdevChange]\<rparr>"

definition proxy_waiting :: MountPointStateMachine where
  "proxy_waiting =
     proxy_ready\<lparr>state := WaitingForGadgetState (Some 7),
       effects := effects proxy_ready @ [Spawn ''/usr/sbin/nbd-client'']\<rparr>"

definition proxy_active :: MountPointStateMachine where
  "proxy_active =
     proxy_waiting\<lparr>state := ActiveState (Some 7),
       effects := effects proxy_waiting @
         [UsbGadgetConfigure inserted (Some False),
          SendEvent RESOURCE_CREATED ''/xyz/openbmc_project/VirtualMedia/Proxy/Slot_0'']\<rparr>"

definition legacy_ready :: MountPointStateMachine where
  "legacy_ready =
     slot_legacy\<lparr>state := ReadyState None,
       effects := [AddInterfaces ''/xyz/openbmc_project/VirtualMedia/Legacy/Slot_2'',
                   ForceUdevChange]\<rparr>"

definition cifs_target :: "bool \<Rightarrow> Target" where
  "cifs_target w =
     \<lparr>imgUrl = ''smb://host/share/image.iso'', rw = w, mountDir = None, credentials = None\<rparr>"

definition cifs_waiting :: "bool \<Rightarrow> MountPointStateMachine" where
  "cifs_waiting w =
     legacy_ready\<lparr>target := Some ((cifs_target w)\<lparr>mountDir := Some ''/tmp/Slot_2''\<rparr>),
       state := WaitingForGadgetState (Some 7),
       effects := effects legacy_ready @
         [CreateMountDir ''Slot_2'', SmbMount ''/tmp/Slot_2'' w, Spawn ''/usr/sbin/nbdkit'']\<rparr>"

definition cifs_active :: MountPointStateMachine where
  "cifs_active =
     (cifs_waiting False)\<lparr>state := ActiveState (Some 7),
       effects := effects (cifs_waiting False) @
         [TimerWait 100, UsbGadgetConfigure inserted (Some False),
          SendEvent RESOURCE_CREATED ''/xyz/openbmc_project/VirtualMedia/Legacy/Slot_2'']\<rparr>"

definition cifs_stopped :: MountPointStateMachine where
  "cifs_stopped =
     (cifs_waiting False)\<lparr>target := None,
       state := ReadyState (Some \<lparr>code = io_error, message = ''Process ended prematurely''\<rparr>),
       effects := effects (cifs_waiting False) @ [StopProcess 7, SmbUnmount ''/tmp/Slot_2'']\<rparr>"

definition cifs_left :: MountPointStateMachine where
  "cifs_left =
     cifs_active\<lparr>target := None, state := ReadyState None, exitCode := 0,
       effects := effects cifs_active @
         [UsbGadgetConfigure removed None, StopProcess 7,
          SendEvent RESOURCE_DELETED ''/xyz/openbmc_project/VirtualMedia/Legacy/Slot_2'',
          TimerWait 100]\<rparr>"

lemmas fixture_defs =
  env_ok_def env_busy_def slot_proxy_def slot_legacy_def proxy_ready_def proxy_waiting_def
  proxy_active_def legacy_ready_def cifs_target_def cifs_waiting_def cifs_active_def
  cifs_stopped_def cifs_left_def

lemmas machine_defs =
  activateProxyMode_def activateLegacyMode_def mountSmbShare_def mountHttpsShare_def
  spawnNbdKit_def spawnNbdKitUrl_def removeUsbGadget_def stopProcess_def enter_def
  perform_def ReadyError_def ReadyState_onEnter_def getObjectPath_def Let_def
  proxyObjectPath_def legacyObjectPath_def checkUrl_def isCifsUrl_def isHttpsUrl_def

subsection \<open>What each function leaves alone\<close>

lemma sent_append [simp]: "sent (xs @ ys) = sent xs @ sent ys"
  by (induction xs rule: sent.induct) simp_all

lemma perform_fields [simp]:
  "state (perform x m) = state m" "target (perform x m) = target m"
  "config (perform x m) = config m" "name (perform x m) = name m"
  "exitCode (perform x m) = exitCode m" "effects (perform x m) = effects m @ [x]"
  by (simp_all add: perform_def)

lemma enter_fields [simp]:
  "state (enter s m) = s" "target (enter s m) = target m"
  "config (enter s m) = config m" "name (enter s m) = name m"
  "exitCode (enter s m) = exitCode m" "effects (enter s m) = effects m"
  by (simp_all add: enter_def)

lemma stopProcess_fields [simp]:
  "state (stopProcess env p m) = state m" "target (stopProcess env p m) = target m"
  "config (stopProcess env p m) = config m" "name (stopProcess env p m) = name m"
  "sent (effects (stopProcess env p m)) = sent (effects m)"
  by (simp_all add: stopProcess_def split: option.split)

lemma removeUsbGadget_fields [simp]:
  "fst (removeUsbGadget env m) = (usbGadgetConfigure env removed = 0)"
  "state (snd (removeUsbGadget env m)) = state m"
  "target (snd (removeUsbGadget env m)) = target m"
  "config (snd (removeUsbGadget env m)) = config m"
  "name (snd (removeUsbGadget env m)) = name m"
  "sent (effects (snd (removeUsbGadget env m))) = sent (effects m)"
  by (simp_all add: removeUsbGadget_def Let_def)

lemma spawnNbdKit_fields [simp]:
  "state (snd (spawnNbdKit env m)) = state m"
  "target (snd (spawnNbdKit env m)) = target m"
  "config (snd (spawnNbdKit env m)) = config m"
  "name (snd (spawnNbdKit env m)) = name m"
  "sent (effects (snd (spawnNbdKit env m))) = sent (effects m)"
  by (simp_all add: spawnNbdKit_def Let_def)

lemma spawnNbdKitUrl_fields [simp]:
  "state (snd (spawnNbdKitUrl env t m)) = state m"
  "target (snd (spawnNbdKitUrl env t m)) = target m"
  "config (snd (spawnNbdKitUrl env t m)) = config m"
  "name (snd (spawnNbdKitUrl env t m)) = name m"
  "sent (effects (snd (spawnNbdKitUrl env t m))) = sent (effects m)"
  by (simp_all add: spawnNbdKitUrl_def split: option.split)

lemma settled_simps [simp]:
  "settled (WaitingForGadgetState p)" "settled (ReadyError ec msg)"
  "settled (ReadyState (Some e))"
  by (simp_all add: settled_def ReadyError_def)

lemma activateProxyMode_fields [simp]:
  "settled (state (activateProxyMode env m))"
  "target (activateProxyMode env m) = target m"
  "config (activateProxyMode env m) = config m"
  "name (activateProxyMode env m) = name m"
  "sent (effects (activateProxyMode env m)) = sent (effects m)"
  by (simp_all add: activateProxyMode_def Let_def)

lemma mountHttpsShare_fields [simp]:
  "settled (state (mountHttpsShare env t m))"
  "target (mountHttpsShare env t m) = target m"
  "config (mountHttpsShare env t m) = config m"
  "name (mountHttpsShare env t m) = name m"
  "sent (effects (mountHttpsShare env t m)) = sent (effects m)"
  by (simp_all add: mountHttpsShare_def split_beta split: option.split)

lemma mountSmbShare_fields [simp]:
  "settled (state (mountSmbShare env t m))"
  "config (mountSmbShare env t m) = config m"
  "name (mountSmbShare env t m) = name m"
  "sent (effects (mountSmbShare env t m)) = sent (effects m)"
  by (simp_all add: mountSmbShare_def Let_def split_beta split: option.split)

lemma mountSmbShare_target:
  "target (mountSmbShare env t m) =
     (if is_Ready (state (mountSmbShare env t m)) then target m
      else Some (t\<lparr>mountDir := createMountDir env (name m)\<rparr>))"
  by (simp add: mountSmbShare_def Let_def split_beta is_Ready_def ReadyError_def
        split: option.split)

lemma ReadyState_onEnter_fields [simp]:
  "state (ReadyState_onEnter m) = state m" "target (ReadyState_onEnter m) = None"
  "config (ReadyState_onEnter m) = config m" "name (ReadyState_onEnter m) = name m"
  "sent (effects (ReadyState_onEnter m)) = sent (effects m)"
  by (simp_all add: ReadyState_onEnter_def split: option.split)

lemma settled_cases:
  "settled s \<Longrightarrow> s \<noteq> ActivatingState \<and> s \<noteq> InitialState \<and> \<not> is_Active s
     \<and> (is_Ready s \<or> (\<exists>p. s = WaitingForGadgetState p))"
  by (cases s) (simp_all add: settled_def is_Active_def is_Ready_def)

lemma ActivationStarted_Activating:
  assumes "state m = ActivatingState" and "ActivationStarted env m = Inr m2"
  shows "settled (state m2)" and "config m2 = config m" and "name m2 = name m"
    and "sent (effects m2) = sent (effects m)"
    and "is_Ready (state m2) \<Longrightarrow> target m2 = target m"
    and "target m2 \<noteq> None \<Longrightarrow> target m \<noteq> None"
    and "mode (config m) = legacy \<Longrightarrow> \<not> is_Ready (state m2) \<Longrightarrow> target m2 \<noteq> None"
  using assms
  by (auto simp: activateLegacyMode_def mountSmbShare_target is_Ready_def ReadyError_def
        split: if_splits option.splits)

lemma emitEvent_unfold:
  "emitEvent env event m =
     (case visit env event m of
        Inl f \<Rightarrow> Inl f
      | Inr m1 \<Rightarrow>
          (case state m1 of
             ReadyState e \<Rightarrow> Inr (ReadyState_onEnter m1)
           | ActivatingState \<Rightarrow>
               (case ActivationStarted env (m1\<lparr>exitCode := - 1\<rparr>) of
                  Inl f \<Rightarrow> Inl f
                | Inr m2 \<Rightarrow>
                    (case state m2 of
                       ReadyState e \<Rightarrow> Inr (ReadyState_onEnter m2)
                     | _ \<Rightarrow> Inr m2))
           | _ \<Rightarrow> Inr m1))"
proof (cases "visit env event m")
  case (Inl f)
  then show ?thesis by (subst emitEvent.simps) simp
next
  case (Inr m1)
  show ?thesis
  proof (cases "state m1 = ActivatingState")
    case False
    with Inr show ?thesis
      by (subst emitEvent.simps) (simp split: State.split)
  next
    case True
    let ?m = "m1\<lparr>exitCode := - 1\<rparr>"
    have st: "state ?m = ActivatingState" using True by simp
    have inner: "emitEvent env ActivationStartedEvent ?m =
        (case ActivationStarted env ?m of
           Inl f \<Rightarrow> Inl f
         | Inr m2 \<Rightarrow>
             (case state m2 of
                ReadyState e \<Rightarrow> Inr (ReadyState_onEnter m2)
              | _ \<Rightarrow> Inr m2))"
    proof (cases "ActivationStarted env ?m")
      case (Inl f)
      then show ?thesis by (subst emitEvent.simps) simp
    next
      case (Inr m2)
      have "state m2 \<noteq> ActivatingState"
        using ActivationStarted_Activating(1) [OF st Inr] settled_cases by blast
      with Inr show ?thesis
        by (subst emitEvent.simps) (simp split: State.split)
    qed
    from Inr True inner show ?thesis
      by (subst emitEvent.simps) simp
  qed
qed

lemma emitEvent_Inr:
  assumes "emitEvent env event m = Inr m'"
  obtains m1 where "visit env event m = Inr m1" and "is_Ready (state m1)"
      and "m' = ReadyState_onEnter m1"
  | m1 m2 where "visit env event m = Inr m1" and "state m1 = ActivatingState"
      and "ActivationStarted env (m1\<lparr>exitCode := - 1\<rparr>) = Inr m2"
      and "is_Ready (state m2)" and "m' = ReadyState_onEnter m2"
  | m1 m2 where "visit env event m = Inr m1" and "state m1 = ActivatingState"
      and "ActivationStarted env (m1\<lparr>exitCode := - 1\<rparr>) = Inr m2"
      and "\<not> is_Ready (state m2)" and "m' = m2"
  | "visit env event m = Inr m'" and "\<not> is_Ready (state m')"
      and "state m' \<noteq> ActivatingState"
  using assms unfolding emitEvent_unfold
  by (auto simp: is_Ready_def split: sum.splits State.splits)

lemma visit_frame:
  "visit env event m = Inr m1 \<Longrightarrow> config m1 = config m \<and> name m1 = name m"
  by (cases event; cases "state m")
     (auto simp: split_beta activateLegacyMode_def Let_def
        split: if_splits option.splits bool.splits)

lemma ActivationStarted_elsewhere:
  "state m \<noteq> ActivatingState \<Longrightarrow> ActivationStarted env m = Inr m"
  by (cases "state m") simp_all

lemma visit_sent:
  assumes "visit env event m = Inr m1"
  shows "sent (effects m1) = sent (effects m) @
       (if \<not> is_Active (state m) \<and> is_Active (state m1)
        then [(RESOURCE_CREATED, getObjectPath m @ name m)]
        else if event = UnmountEvent \<and> is_Active (state m) \<and> \<not> is_Ready (state m1)
        then [(RESOURCE_DELETED, getObjectPath m @ name m)]
        else [])"
proof (cases "event = ActivationStartedEvent")
  case True
  show ?thesis
  proof (cases "state m = ActivatingState")
    case act: True
    have m1: "ActivationStarted env m = Inr m1" using assms True by simp
    have "\<not> is_Active (state m1)"
      using ActivationStarted_Activating(1) [OF act m1] settled_cases by blast
    then show ?thesis
      using ActivationStarted_Activating(4) [OF act m1] True by simp
  next
    case False
    then have "m1 = m"
      using assms True ActivationStarted_elsewhere [of m env] by simp
    then show ?thesis using True by simp
  qed
next
  case False
  with assms show ?thesis
    by (cases event; cases "state m")
       (auto simp: split_beta is_Active_def is_Ready_def ReadyError_def Let_def
          split: if_splits bool.splits)
qed

lemma visit_Activating:
  assumes "visit env event m = Inr m1" and "state m1 = ActivatingState"
  shows "event \<noteq> UnmountEvent" and "event \<noteq> ActivationStartedEvent"
    and "\<not> is_Active (state m)" and "target m1 = target m" and "effects m1 = effects m"
    and "is_Ready (state m) \<or> state m = ActivatingState"
proof -
  have na: "event \<noteq> ActivationStartedEvent"
  proof
    assume ev: "event = ActivationStartedEvent"
    show False
    proof (cases "state m = ActivatingState")
      case True
      then show False
        using ActivationStarted_Activating(1) [OF True, of env m1] assms ev settled_cases
        by auto
    next
      case False
      then show False using assms ev ActivationStarted_elsewhere [of m env] by simp
    qed
  qed
  then show "event \<noteq> ActivationStartedEvent" .
  from na assms show "event \<noteq> UnmountEvent" "\<not> is_Active (state m)"
      "target m1 = target m" "effects m1 = effects m"
      "is_Ready (state m) \<or> state m = ActivatingState"
    by (cases event; cases "state m";
        auto simp: split_beta is_Active_def is_Ready_def ReadyError_def Let_def
          split: if_splits bool.splits)+
qed

lemma emitEvent_sent:
  assumes "emitEvent env event m = Inr m'"
  shows "sent (effects m') = sent (effects m) @
       (if \<not> is_Active (state m) \<and> is_Active (state m')
        then [(RESOURCE_CREATED, getObjectPath m @ name m)]
        else if event = UnmountEvent \<and> is_Active (state m) \<and> \<not> is_Ready (state m')
        then [(RESOURCE_DELETED, getObjectPath m @ name m)]
        else [])"
  using assms
proof (cases rule: emitEvent_Inr)
  case (1 m1)
  then show ?thesis
    using visit_sent [of env event m m1]
    by (auto simp: is_Ready_def is_Active_def split: State.splits)
next
  case (2 m1 m2)
  have st: "state (m1\<lparr>exitCode := - 1\<rparr>) = ActivatingState" using 2 by simp
  show ?thesis
    using 2 visit_Activating(1,5) [OF 2(1,2)] ActivationStarted_Activating(4) [OF st 2(3)]
    by (auto simp: is_Ready_def is_Active_def split: State.splits)
next
  case (3 m1 m2)
  have st: "state (m1\<lparr>exitCode := - 1\<rparr>) = ActivatingState" using 3 by simp
  have na: "\<not> is_Active (state m2)"
    using ActivationStarted_Activating(1) [OF st 3(3)] settled_cases by blast
  show ?thesis
    using 3 na visit_Activating(1,5) [OF 3(1,2)] ActivationStarted_Activating(4) [OF st 3(3)]
    by (auto simp: is_Active_def)
next
  case 4
  then show ?thesis using visit_sent [of env event m m'] by simp
qed


subsection \<open>The polling loop\<close>

lemma pollMount_stops:
  "k < n \<Longrightarrow> \<forall>j<k. pending (after_waits j sched m) \<Longrightarrow> after_waits k sched m = Inr mk
     \<Longrightarrow> terminal (state mk) \<Longrightarrow> pollMount n sched m = (mount_reply (state mk), mk)"
proof (induction k arbitrary: n sched m)
  case 0
  then obtain n' where n: "n = Suc n'" by (cases n) auto
  from 0 show ?case
    by (cases "state mk")
       (auto simp: n terminal_def is_Ready_def is_Active_def mount_reply_def
          split: option.splits)
next
  case (Suc k)
  then obtain n' where n: "n = Suc n'" and k: "k < n'" by (cases n) auto
  from Suc.prems(2) have "pending (after_waits 0 sched m)" by blast
  then have nt: "\<not> terminal (state m)" by (simp add: pending_def)
  from Suc.prems(3) obtain m1 where w: "async_wait sched m = Inr m1"
    and a: "after_waits k (tl sched) m1 = Inr mk"
    by (auto split: sum.splits)
  have p: "\<forall>j<k. pending (after_waits j (tl sched) m1)"
  proof (intro allI impI)
    fix j assume "j < k"
    then have "Suc j < Suc k" by simp
    with Suc.prems(2) have "pending (after_waits (Suc j) sched m)" by blast
    then show "pending (after_waits j (tl sched) m1)" using w by simp
  qed
  have "pollMount n' (tl sched) m1 = (mount_reply (state mk), mk)"
    using Suc.IH [OF k p a Suc.prems(4)] .
  then show ?case using nt w
    by (cases "state m") (auto simp: n terminal_def is_Ready_def is_Active_def)
qed

lemma pollMount_timeout:
  "\<forall>j<n. pending (after_waits j sched m) \<Longrightarrow> after_waits n sched m = Inr mn
     \<Longrightarrow> pollMount n sched m = (Returned False, mn)"
proof (induction n arbitrary: sched m)
  case 0
  then show ?case by simp
next
  case (Suc n)
  from Suc.prems(1) have "pending (after_waits 0 sched m)" by blast
  then have nt: "\<not> terminal (state m)" by (simp add: pending_def)
  from Suc.prems(2) obtain m1 where w: "async_wait sched m = Inr m1"
    and a: "after_waits n (tl sched) m1 = Inr mn"
    by (auto split: sum.splits)
  have p: "\<forall>j<n. pending (after_waits j (tl sched) m1)"
  proof (intro allI impI)
    fix j assume "j < n"
    then have "Suc j < Suc n" by simp
    with Suc.prems(1) have "pending (after_waits (Suc j) sched m)" by blast
    then show "pending (after_waits j (tl sched) m1)" using w by simp
  qed
  have "pollMount n (tl sched) m1 = (Returned False, mn)"
    using Suc.IH [OF p a] .
  then show ?case using nt w
    by (cases "state m") (auto simp: terminal_def is_Ready_def is_Active_def)
qed

subsection \<open>The target across an event\<close>

lemma visit_lifecycle:
  assumes "visit env event m = Inr m1" and "mode (config m) = legacy"
    and "is_Ready (state m) \<or> P1 m"
    and "\<not> is_Ready (state m1)" and "state m1 \<noteq> ActivatingState"
  shows "P1 m1"
proof (cases "event = ActivationStartedEvent")
  case True
  show ?thesis
  proof (cases "state m = ActivatingState")
    case act: True
    have m1: "ActivationStarted env m = Inr m1" using assms(1) True by simp
    have "target m1 \<noteq> None"
      using ActivationStarted_Activating(7) [OF act m1] assms(2,4) by simp
    moreover have "in_lifecycle (state m1)"
      using ActivationStarted_Activating(1) [OF act m1] settled_cases [of "state m1"] assms(4)
      by (auto simp: in_lifecycle_def)
    ultimately show ?thesis by (simp add: P1_def)
  next
    case False
    then have "m1 = m"
      using assms(1) True ActivationStarted_elsewhere [of m env] by simp
    then show ?thesis using assms(3,4) by auto
  qed
next
  case False
  with assms show ?thesis
    by (cases event; cases "state m")
       (auto simp: split_beta P1_def in_lifecycle_def is_Ready_def ReadyError_def Let_def
          split: if_splits bool.splits)
qed

lemma Ready_no_target:
  assumes "emitEvent env event m = Inr m'" and "is_Ready (state m')"
  shows "target m' = None"
  using assms(1)
proof (cases rule: emitEvent_Inr)
  case (3 m1 m2)
  then show ?thesis using assms(2) by simp
next
  case 4
  then show ?thesis using assms(2) by simp
qed simp_all

lemma P1_legacy:
  assumes "emitEvent env event m = Inr m'" and "mode (config m) = legacy"
    and "is_Ready (state m) \<or> P1 m"
  shows "P1 m'"
  using assms(1)
proof (cases rule: emitEvent_Inr)
  case (1 m1)
  then show ?thesis by (auto simp: P1_def in_lifecycle_def is_Ready_def split: State.splits)
next
  case (2 m1 m2)
  then show ?thesis by (auto simp: P1_def in_lifecycle_def is_Ready_def split: State.splits)
next
  case (3 m1 m2)
  have st: "state (m1\<lparr>exitCode := - 1\<rparr>) = ActivatingState" using 3 by simp
  have leg: "mode (config (m1\<lparr>exitCode := - 1\<rparr>)) = legacy"
    using visit_frame [OF 3(1)] assms(2) by simp
  have "target m2 \<noteq> None"
    using ActivationStarted_Activating(7) [OF st 3(3) leg 3(4)] .
  moreover have "in_lifecycle (state m2)"
    using ActivationStarted_Activating(1) [OF st 3(3)] settled_cases [of "state m2"] 3(4)
    by (auto simp: in_lifecycle_def)
  ultimately show ?thesis using 3(5) by (simp add: P1_def)
next
  case 4
  then show ?thesis using visit_lifecycle [OF 4(1) assms(2,3)] by simp
qed


section \<open>The claims\<close>

subsection \<open>C1: the target and the active lifecycle\<close>

text \<open>C1, as stated, fails. In proxy mode the \<^verbatim>\<open>Mount\<close> method takes no arguments
  and nothing sets a target: the mount event takes the registered proxy slot from
  \<^verbatim>\<open>Ready\<close>, where P1 holds, to \<^verbatim>\<open>WaitingForGadget\<close> with no target, where P1
  does not hold.\<close>

theorem proxy_mount_without_target:
  "emitEvent env_ok MountEvent proxy_ready = Inr proxy_waiting
   \<and> P1 proxy_ready
   \<and> state proxy_waiting = WaitingForGadgetState (Some 7)
   \<and> target proxy_waiting = None
   \<and> \<not> P1 proxy_waiting"
  by (simp add: emitEvent_unfold fixture_defs machine_defs P1_def in_lifecycle_def)

text \<open>C1, amended: after every applied event a slot in \<^verbatim>\<open>Ready\<close> has no target, in
  either mode; and in legacy mode, if before the event the slot was in \<^verbatim>\<open>Ready\<close> or
  had its target set exactly in the active lifecycle, then after the event the target
  is set exactly in the active lifecycle. (In proxy mode nothing sets a target. What
  the legacy \<^verbatim>\<open>Mount\<close> method does to the target before it emits the event, and
  when it emits none, is not part of this statement.)\<close>

theorem target_invariant_after_event:
  "emitEvent env event m = Inr m' \<Longrightarrow>
     (is_Ready (state m') \<longrightarrow> target m' = None)
     \<and> (mode (config m) = legacy \<and> (is_Ready (state m) \<or> P1 m) \<longrightarrow> P1 m')"
  using Ready_no_target [of env event m m'] P1_legacy [of env event m m'] by blast

text \<open>Witness for C1. The legacy slot in \<^verbatim>\<open>Ready\<close>, with the target the
  \<^verbatim>\<open>Mount\<close> method has just stored, receives the mount event and waits for the
  gadget with its target; then the server exits, the slot returns to \<^verbatim>\<open>Ready\<close> and
  the target is dropped.\<close>

theorem target_invariant_after_event_witness:
  "emitEvent env_ok MountEvent (legacy_ready\<lparr>target := Some (cifs_target False)\<rparr>)
     = Inr (cifs_waiting False)
   \<and> mode (config (legacy_ready\<lparr>target := Some (cifs_target False)\<rparr>)) = legacy
   \<and> is_Ready (state (legacy_ready\<lparr>target := Some (cifs_target False)\<rparr>))
   \<and> P1 (cifs_waiting False)
   \<and> emitEvent env_ok SubprocessStoppedEvent (cifs_waiting False) = Inr cifs_stopped
   \<and> mode (config (cifs_waiting False)) = legacy
   \<and> is_Ready (state cifs_stopped) \<and> target cifs_stopped = None
   \<and> P1 cifs_stopped"
proof -
  let ?m = "legacy_ready\<lparr>target := Some (cifs_target False)\<rparr>"
  have e1: "emitEvent env_ok MountEvent ?m = Inr (cifs_waiting False)"
    by (simp add: emitEvent_unfold fixture_defs machine_defs)
  have l1: "mode (config ?m) = legacy"
    by (simp add: fixture_defs)
  have r1: "is_Ready (state ?m)"
    by (simp add: fixture_defs is_Ready_def)
  have p1: "P1 (cifs_waiting False)"
    using target_invariant_after_event [OF e1] l1 r1 by blast
  have e2: "emitEvent env_ok SubprocessStoppedEvent (cifs_waiting False) = Inr cifs_stopped"
    by (simp add: emitEvent_unfold fixture_defs machine_defs)
  have l2: "mode (config (cifs_waiting False)) = legacy"
    by (simp add: fixture_defs)
  have r2: "is_Ready (state cifs_stopped)"
    by (simp add: fixture_defs is_Ready_def)
  have t2: "target cifs_stopped = None"
    using target_invariant_after_event [OF e2] r2 by blast
  have p2: "P1 cifs_stopped"
    using target_invariant_after_event [OF e2] l2 p1 by blast
  show ?thesis
    by (intro conjI) (rule e1 l1 r1 p1 e2 l2 r2 t2 p2)+
qed

subsection \<open>C2: the credential pipe\<close>

text \<open>C2 at the failing input: a legacy \<^verbatim>\<open>Mount\<close> whose pipe delivers
  \<^verbatim>\<open>"alice\0"\<close> (one NUL) into a buffer of sixteen bytes. The call is rejected with
  \<^verbatim>\<open>EINVAL\<close>, the value of \<^verbatim>\<open>invalid_argument\<close>, and the message
  \<^verbatim>\<open>Malformed extra data\<close>, as the claim says; but the exception leaves the block
  before \<^verbatim>\<open>utils::secureCleanup(buf)\<close>, and the buffer still holds the bytes read.
  With two NULs the buffer is zeroized (last conjunct).\<close>

theorem malformed_pipe_buffer_not_cleaned:
  "Mount_legacy env_ok (replicate 16 (CHR ''#'')) ''smb://host/share/image.iso'' False
       (Some (''alice'' @ [CHR 0x00])) [] legacy_ready
     = (SdBusError EINVAL ''Malformed extra data'',
        legacy_ready\<lparr>target := Some (cifs_target False)\<rparr>,
        Some (''alice'' @ [CHR 0x00] @ replicate 10 (CHR ''#'')))
   \<and> EINVAL = errc_value invalid_argument
   \<and> ''alice'' @ [CHR 0x00] @ replicate 10 (CHR ''#'')
       \<noteq> secureCleanup (''alice'' @ [CHR 0x00] @ replicate 10 (CHR ''#''))
   \<and> Mount_legacy env_ok (replicate 16 (CHR ''#'')) ''smb://host/share/image.iso'' False
       (Some (''alice'' @ [CHR 0x00] @ ''s3cret'' @ [CHR 0x00]))
       [emitUdevStateChangeEvent env_ok ''/dev/nbd2'' inserted] legacy_ready
     = (Returned True, cifs_active, Some (replicate 16 (CHR 0x00)))"
  by code_simp

subsection \<open>C3: the reply of \<^verbatim>\<open>Mount\<close>\<close>

text \<open>The proxy \<^verbatim>\<open>Mount\<close> is \<^verbatim>\<open>handleMount\<close> and nothing else. Once the mount
  event is emitted it looks at the state before each of at most 120 waits of 100 ms. If
  poll \<open>k\<close> (counted from 0, \<open>k < 120\<close>) is the first to find a terminal state, the
  method returns true for \<^verbatim>\<open>Active\<close>, false for \<^verbatim>\<open>Ready\<close> without an error, and
  raises the error's code and message for \<^verbatim>\<open>Ready\<close> with an error; if all 120 polls
  find the slot still on its way, it returns false after the 120th wait.\<close>

lemma Mount_proxy_replies:
  assumes "emitEvent env MountEvent m = Inr m0"
    and "k \<le> 120"
    and "\<forall>j<k. pending (after_waits j sched m0)"
    and "after_waits k sched m0 = Inr mk"
  shows "(k < 120 \<and> is_Active (state mk) \<longrightarrow>
            Mount_proxy env sched m = (Returned True, mk))
       \<and> (k < 120 \<and> state mk = ReadyState None \<longrightarrow>
            Mount_proxy env sched m = (Returned False, mk))
       \<and> (\<forall>e. k < 120 \<and> state mk = ReadyState (Some e) \<longrightarrow>
            Mount_proxy env sched m = (SdBusError (errc_value (code e)) (message e), mk))
       \<and> (k = 120 \<longrightarrow> Mount_proxy env sched m = (Returned False, mk))"
proof -
  have h: "Mount_proxy env sched m = pollMount 120 sched m0"
    using assms(1) by (simp add: Mount_proxy_def handleMount_def)
  have stop: "k < 120 \<Longrightarrow> terminal (state mk)
      \<Longrightarrow> Mount_proxy env sched m = (mount_reply (state mk), mk)"
    using pollMount_stops [OF _ assms(3,4)] h by simp
  have tmo: "k = 120 \<Longrightarrow> Mount_proxy env sched m = (Returned False, mk)"
    using pollMount_timeout [of 120 sched m0 mk] assms(3,4) h by simp
  show ?thesis
    using stop tmo
    by (auto simp: terminal_def is_Ready_def is_Active_def mount_reply_def
          split: State.splits)
qed

text \<open>The legacy \<^verbatim>\<open>Mount\<close> wraps \<^verbatim>\<open>handleMount\<close> and, on the returning and on the
  throwing path alike, ends with \<^verbatim>\<open>machine.target->credentials.reset()\<close>. Whenever
  \<^verbatim>\<open>handleMount\<close> leaves the machine without a target, that access is the outcome of
  the method, whatever \<^verbatim>\<open>handleMount\<close> answered.\<close>

lemma Mount_legacy_epilogue:
  assumes "handleMount env sched
             (m\<lparr>target := Some \<lparr>imgUrl = url, rw = w, mountDir = None, credentials = None\<rparr>\<rparr>)
           = (r, m')"
    and "target m' = None"
  shows "Mount_legacy env buf0 url w None sched m = (Faulted EmptyOptionalAccess, m', None)"
  using assms by (simp add: Mount_legacy_def resetCredentials_def)

text \<open>C3 at the failing inputs, both on the registered legacy slot. A \<^verbatim>\<open>Mount\<close> of
  \<^verbatim>\<open>ftp://x/y\<close> brings the slot back to \<^verbatim>\<open>Ready\<close> with the error
  \<^verbatim>\<open>invalid_argument\<close>, \<^verbatim>\<open>URL not recognized\<close>; \<^verbatim>\<open>handleMount\<close> raises that code
  and message, as the claim says, but \<^verbatim>\<open>ReadyState::onEnter\<close> has dropped the target
  and the epilogue of the method reads it through the empty optional. A \<^verbatim>\<open>Mount\<close> of
  a CIFS image that the consumer unmounts during the first wait, the server ending
  during the second, brings the slot back to \<^verbatim>\<open>Ready\<close> without an error;
  \<^verbatim>\<open>handleMount\<close> returns false and the epilogue does the same access. The proxy
  method gives the two replies of the claim on the corresponding runs (last two
  conjuncts).\<close>

theorem Mount_legacy_faults_on_Ready:
  "Mount_legacy env_ok (replicate 16 (CHR ''#'')) ''ftp://x/y'' False None [] legacy_ready
     = (Faulted EmptyOptionalAccess,
        legacy_ready\<lparr>state := ReadyState
          (Some \<lparr>code = invalid_argument, message = ''URL not recognized''\<rparr>)\<rparr>,
        None)
   \<and> handleMount env_ok []
         (legacy_ready\<lparr>target := Some \<lparr>imgUrl = ''ftp://x/y'', rw = False,
                                         mountDir = None, credentials = None\<rparr>\<rparr>)
     = (SdBusError (errc_value invalid_argument) ''URL not recognized'',
        legacy_ready\<lparr>state := ReadyState
          (Some \<lparr>code = invalid_argument, message = ''URL not recognized''\<rparr>)\<rparr>)
   \<and> Mount_legacy env_ok (replicate 16 (CHR ''#'')) ''smb://host/share/image.iso'' False None
         [emitEvent env_ok UnmountEvent, processEnded env_ok 0] legacy_ready
     = (Faulted EmptyOptionalAccess,
        legacy_ready\<lparr>exitCode := 0,
          effects := effects legacy_ready @
            [CreateMountDir ''Slot_2'', SmbMount ''/tmp/Slot_2'' False,
             Spawn ''/usr/sbin/nbdkit'', TimerWait 100, StopProcess 7, TimerWait 100,
             SmbUnmount ''/tmp/Slot_2'']\<rparr>,
        None)
   \<and> handleMount env_ok [emitEvent env_ok UnmountEvent, processEnded env_ok 0]
         (legacy_ready\<lparr>target := Some (cifs_target False)\<rparr>)
     = (Returned False,
        legacy_ready\<lparr>exitCode := 0,
          effects := effects legacy_ready @
            [CreateMountDir ''Slot_2'', SmbMount ''/tmp/Slot_2'' False,
             Spawn ''/usr/sbin/nbdkit'', TimerWait 100, StopProcess 7, TimerWait 100,
             SmbUnmount ''/tmp/Slot_2'']\<rparr>)
   \<and> Mount_proxy env_ok [processEnded env_ok 1] proxy_ready
     = (SdBusError (errc_value io_error) ''Process ended prematurely'',
        proxy_waiting\<lparr>state := ReadyState
            (Some \<lparr>code = io_error, message = ''Process ended prematurely''\<rparr>),
          exitCode := 1,
          effects := effects proxy_waiting @ [TimerWait 100, StopProcess 7]\<rparr>)
   \<and> Mount_proxy env_ok [emitEvent env_ok UnmountEvent, processEnded env_ok 0] proxy_ready
     = (Returned False,
        proxy_waiting\<lparr>state := ReadyState None, exitCode := 0,
          effects := effects proxy_waiting @
            [TimerWait 100, StopProcess 7, TimerWait 100]\<rparr>)"
  by code_simp

subsection \<open>C4: the scratch directory of a CIFS mount\<close>

text \<open>C4 at the failing input. A legacy slot mounts \<^verbatim>\<open>smb://host/share/image.iso\<close>
  and becomes \<^verbatim>\<open>Active\<close>; its target records the scratch directory
  \<^verbatim>\<open>/tmp/Slot_2\<close>. A second \<^verbatim>\<open>Mount\<close> call then arrives with a malformed pipe: it
  is rejected, but only after \<^verbatim>\<open>machine.target = {imgUrl, rw}\<close> has replaced the
  target, and with it the record of the scratch directory. The consumer unmounts, the
  process ends, and \<^verbatim>\<open>ReadyState::onEnter\<close> finds no directory to clean up: the slot
  is in \<^verbatim>\<open>Ready\<close> and neither \<^verbatim>\<open>SmbShare::unmount\<close> nor \<^verbatim>\<open>fs::remove_all\<close> was
  ever called on \<^verbatim>\<open>/tmp/Slot_2\<close>. Without the second call the same unmount does
  call \<^verbatim>\<open>SmbShare::unmount\<close> on it (last conjunct).\<close>

theorem scratch_dir_left_after_retarget:
  "Mount_legacy env_ok (replicate 16 (CHR ''#'')) ''smb://host/share/image.iso'' False None
       [emitUdevStateChangeEvent env_ok ''/dev/nbd2'' inserted] legacy_ready
     = (Returned True, cifs_active, None)
   \<and> target cifs_active = Some ((cifs_target False)\<lparr>mountDir := Some ''/tmp/Slot_2''\<rparr>)
   \<and> Mount_legacy env_ok (replicate 16 (CHR ''#'')) ''smb://host/share/image.iso'' False
       (Some (''alice'' @ [CHR 0x00])) [] cifs_active
     = (SdBusError EINVAL ''Malformed extra data'',
        cifs_active\<lparr>target := Some (cifs_target False)\<rparr>,
        Some (''alice'' @ [CHR 0x00] @ replicate 10 (CHR ''#'')))
   \<and> Unmount_method env_ok [processEnded env_ok 0]
         (cifs_active\<lparr>target := Some (cifs_target False)\<rparr>)
     = (Returned True, cifs_left)
   \<and> state cifs_left = ReadyState None
   \<and> CreateMountDir ''Slot_2'' \<in> set (effects cifs_left)
   \<and> SmbMount ''/tmp/Slot_2'' False \<in> set (effects cifs_left)
   \<and> SmbUnmount ''/tmp/Slot_2'' \<notin> set (effects cifs_left)
   \<and> RemoveAll ''/tmp/Slot_2'' \<notin> set (effects cifs_left)
   \<and> Unmount_method env_ok [processEnded env_ok 0] cifs_active
     = (Returned True,
        cifs_left\<lparr>effects := effects cifs_left @ [SmbUnmount ''/tmp/Slot_2'']\<rparr>)"
  by code_simp

subsection \<open>C5 and C10: the property \<^verbatim>\<open>WriteProtected\<close>\<close>

text \<open>C5 at the failing input. A legacy slot that mounts a read-write CIFS image waits
  for the gadget: the state is \<^verbatim>\<open>WaitingForGadget\<close>, not \<^verbatim>\<open>Active\<close>, and the claim
  says the property reads true. The getter of \<^verbatim>\<open>WriteProtected\<close> does not look at
  the state and answers false. The getter of \<^verbatim>\<open>ImageURL\<close>, registered next to it,
  tests for \<^verbatim>\<open>ActiveState\<close> and answers with the empty string on the same slot.\<close>

theorem WriteProtected_waiting_rw:
  "emitEvent env_ok MountEvent (legacy_ready\<lparr>target := Some (cifs_target True)\<rparr>)
     = Inr (cifs_waiting True)
   \<and> state (cifs_waiting True) = WaitingForGadgetState (Some 7)
   \<and> WriteProtected_get (cifs_waiting True) = Inr False
   \<and> ImageURL_get (cifs_waiting True) = Inr []"
  by (simp add: emitEvent_unfold fixture_defs machine_defs WriteProtected_get_def
        ImageURL_get_def)

text \<open>C10 at the failing input: the legacy slot right after registration is in
  \<^verbatim>\<open>Ready\<close> with no target. The getter of \<^verbatim>\<open>WriteProtected\<close> evaluates
  \<^verbatim>\<open>machine.target->rw\<close> on the empty optional. The getter of \<^verbatim>\<open>ImageURL\<close>, registered
  next to it, tests the state first and does not touch the target.\<close>

theorem WriteProtected_without_target:
  "emitEvent env_ok RegisterDbusEvent slot_legacy = Inr legacy_ready
   \<and> state legacy_ready = ReadyState None
   \<and> target legacy_ready = None
   \<and> WriteProtected_get legacy_ready = Inl EmptyOptionalAccess
   \<and> ImageURL_get legacy_ready = Inr []"
  by (simp add: emitEvent_unfold fixture_defs machine_defs WriteProtected_get_def
        ImageURL_get_def)

subsection \<open>C6: a CIFS share that cannot be mounted\<close>

text \<open>C6, as stated, fails. The legacy slot, given a CIFS target, receives the mount
  event while \<^verbatim>\<open>SmbShare::mount\<close> fails: it ends in \<^verbatim>\<open>Ready\<close> with the code
  \<^verbatim>\<open>invalid_argument\<close>, not \<^verbatim>\<open>io_error\<close>.\<close>

theorem cifs_mount_failure_code:
  "emitEvent (env_ok\<lparr>smbMount := False\<rparr>) MountEvent
       (legacy_ready\<lparr>target := Some (cifs_target False)\<rparr>)
     = Inr (legacy_ready\<lparr>
         state := ReadyState
           (Some \<lparr>code = invalid_argument, message = ''Failed to mount CIFS share''\<rparr>),
         effects := effects legacy_ready @
           [CreateMountDir ''Slot_2'', SmbMount ''/tmp/Slot_2'' False,
            RemoveAll ''/tmp/Slot_2'']\<rparr>)
   \<and> invalid_argument \<noteq> io_error"
  by (simp add: emitEvent_unfold fixture_defs machine_defs)

text \<open>C6, amended: during legacy activation of an \<^verbatim>\<open>smb://\<close> URL, if the scratch
  directory \<open>d\<close> was created and mounting the share fails, the slot goes to \<^verbatim>\<open>Ready\<close>
  with the error \<^verbatim>\<open>invalid_argument\<close>, \<^verbatim>\<open>Failed to mount CIFS share\<close>; the calls of
  the activation are the creation of the directory, the mount and
  \<^verbatim>\<open>fs::remove_all(d)\<close>, in this order, before the state changes, and entering
  \<^verbatim>\<open>Ready\<close> drops the target (unmounting a directory the target may have recorded
  before).\<close>

theorem cifs_mount_failure:
  assumes "state m = ActivatingState" and "mode (config m) = legacy"
    and "target m = Some t" and "isCifsUrl (imgUrl t)"
    and "createMountDir env (name m) = Some d" and "\<not> smbMount env"
  shows "visit env ActivationStartedEvent m
           = Inr (m\<lparr>state := ReadyState
                      (Some \<lparr>code = invalid_argument,
                             message = ''Failed to mount CIFS share''\<rparr>),
                    effects := effects m @
                      [CreateMountDir (name m), SmbMount d (rw t), RemoveAll d]\<rparr>)
       \<and> emitEvent env ActivationStartedEvent m
           = Inr (m\<lparr>target := None,
                    state := ReadyState
                      (Some \<lparr>code = invalid_argument,
                             message = ''Failed to mount CIFS share''\<rparr>),
                    effects := effects m @
                      [CreateMountDir (name m), SmbMount d (rw t), RemoveAll d] @
                      (case mountDir t of Some d' \<Rightarrow> [SmbUnmount d'] | None \<Rightarrow> [])\<rparr>)"
  using assms
  by (simp add: emitEvent_unfold activateLegacyMode_def mountSmbShare_def enter_def
        perform_def ReadyError_def ReadyState_onEnter_def Let_def split: option.split)

text \<open>Witness for C6: the legacy slot in \<^verbatim>\<open>Activating\<close> with a CIFS target.\<close>

theorem cifs_mount_failure_witness:
  "state (legacy_ready\<lparr>target := Some (cifs_target False), state := ActivatingState\<rparr>)
     = ActivatingState
   \<and> mode (config legacy_ready) = legacy
   \<and> isCifsUrl (imgUrl (cifs_target False))
   \<and> createMountDir (env_ok\<lparr>smbMount := False\<rparr>) ''Slot_2'' = Some ''/tmp/Slot_2''
   \<and> \<not> smbMount (env_ok\<lparr>smbMount := False\<rparr>)
   \<and> emitEvent (env_ok\<lparr>smbMount := False\<rparr>) ActivationStartedEvent
       (legacy_ready\<lparr>target := Some (cifs_target False), state := ActivatingState\<rparr>)
     = Inr (legacy_ready\<lparr>
         state := ReadyState
           (Some \<lparr>code = invalid_argument, message = ''Failed to mount CIFS share''\<rparr>),
         effects := effects legacy_ready @
           [CreateMountDir ''Slot_2'', SmbMount ''/tmp/Slot_2'' False,
            RemoveAll ''/tmp/Slot_2'']\<rparr>)"
proof -
  let ?m = "legacy_ready\<lparr>target := Some (cifs_target False), state := ActivatingState\<rparr>"
  let ?env = "env_ok\<lparr>smbMount := False\<rparr>"
  have 1: "state ?m = ActivatingState" by simp
  have 2: "mode (config ?m) = legacy" by (simp add: fixture_defs)
  have 3: "target ?m = Some (cifs_target False)" by simp
  have 4: "isCifsUrl (imgUrl (cifs_target False))"
    by (simp add: cifs_target_def isCifsUrl_def checkUrl_def)
  have 5: "createMountDir ?env (name ?m) = Some ''/tmp/Slot_2''"
    by (simp add: fixture_defs)
  have 6: "\<not> smbMount ?env" by simp
  from cifs_mount_failure [OF 1 2 3 4 5 6] 2 4 5 6 show ?thesis
    by (simp add: fixture_defs)
qed

subsection \<open>C7: the process ends while the slot waits for the gadget\<close>

text \<open>C7: applying \<^verbatim>\<open>SubprocessStopped\<close> to a slot in \<^verbatim>\<open>WaitingForGadget\<close> succeeds
  and leaves the slot in \<^verbatim>\<open>Ready\<close> with the error \<^verbatim>\<open>io_error\<close>,
  \<^verbatim>\<open>Process ended prematurely\<close>.\<close>

theorem SubprocessStopped_WaitingForGadget:
  "state m = WaitingForGadgetState p \<Longrightarrow>
     \<exists>m'. emitEvent env SubprocessStoppedEvent m = Inr m'
       \<and> state m' = ReadyState
            (Some \<lparr>code = io_error, message = ''Process ended prematurely''\<rparr>)"
  by (simp add: emitEvent_unfold ReadyError_def)

text \<open>Witness for C7: the proxy slot waiting for its gadget.\<close>

theorem SubprocessStopped_WaitingForGadget_witness:
  "state proxy_waiting = WaitingForGadgetState (Some 7)
   \<and> (\<exists>m'. emitEvent env_ok SubprocessStoppedEvent proxy_waiting = Inr m'
         \<and> state m' = ReadyState
              (Some \<lparr>code = io_error, message = ''Process ended prematurely''\<rparr>))"
proof -
  have s: "state proxy_waiting = WaitingForGadgetState (Some 7)"
    by (simp add: fixture_defs)
  from SubprocessStopped_WaitingForGadget [OF s, of env_ok] s show ?thesis by blast
qed

subsection \<open>C8: udev notifications\<close>

text \<open>C8, as stated, fails. A \<^verbatim>\<open>removed\<close> notification applied to the proxy slot in
  \<^verbatim>\<open>WaitingForGadget\<close> does not leave the state as it is: the slot goes to \<^verbatim>\<open>Ready\<close>
  with the error \<^verbatim>\<open>operation_not_supported\<close>.\<close>

theorem udev_removed_while_waiting:
  "state proxy_waiting = WaitingForGadgetState (Some 7)
   \<and> visit env_ok (UdevStateChangeEvent removed) proxy_waiting
     = Inr (proxy_waiting\<lparr>state := ReadyState
              (Some \<lparr>code = operation_not_supported,
                     message = drop (devStateInt env_ok removed)
                                 ''Unexpected udev event: ''\<rparr>)\<rparr>)
   \<and> emitEvent env_ok (UdevStateChangeEvent removed) proxy_waiting
     = Inr (proxy_waiting\<lparr>state := ReadyState
              (Some \<lparr>code = operation_not_supported,
                     message = drop (devStateInt env_ok removed)
                                 ''Unexpected udev event: ''\<rparr>)\<rparr>)"
  by (simp add: emitEvent_unfold fixture_defs machine_defs)

text \<open>In \<^verbatim>\<open>Activating\<close> the operator of the event returns the state as it is, but
  \<^verbatim>\<open>emitEvent\<close> then runs \<^verbatim>\<open>ActivatingState::onEnter\<close> again, and the activation it
  starts ends in \<^verbatim>\<open>WaitingForGadget\<close> or in \<^verbatim>\<open>Ready\<close> with an error. The statement
  that follows leaves this state out.\<close>

lemma udev_while_Activating:
  assumes "state m = ActivatingState"
    and "emitEvent env (UdevStateChangeEvent devState) m = Inr m'"
  shows "settled (state m')" and "state m' \<noteq> state m"
proof -
  have st: "state (m\<lparr>exitCode := - 1\<rparr>) = ActivatingState" using assms(1) by simp
  obtain m2 where a: "ActivationStarted env (m\<lparr>exitCode := - 1\<rparr>) = Inr m2"
    and s: "state m' = state m2"
    using assms by (auto simp: emitEvent_unfold split: sum.splits State.splits)
  show "settled (state m')"
    using ActivationStarted_Activating(1) [OF st a] s by simp
  then show "state m' \<noteq> state m"
    using settled_cases [of "state m'"] assms(1) by auto
qed

text \<open>C8, amended: applying a \<^verbatim>\<open>UdevStateChange\<close> event to a slot in \<^verbatim>\<open>Initial\<close>,
  \<^verbatim>\<open>Ready\<close>, \<^verbatim>\<open>Active\<close> or \<^verbatim>\<open>WaitingForProcessEnd\<close> succeeds and leaves the state
  unchanged, whatever the direction; applied in \<^verbatim>\<open>WaitingForGadget\<close> it succeeds and
  every direction changes the state: \<^verbatim>\<open>inserted\<close> leads to \<^verbatim>\<open>Active\<close> when the
  gadget is configured and to \<^verbatim>\<open>Ready\<close> with \<^verbatim>\<open>device_or_resource_busy\<close> when it is
  not, any other direction leads to \<^verbatim>\<open>Ready\<close> with \<^verbatim>\<open>operation_not_supported\<close>.
  (\<^verbatim>\<open>Activating\<close> is not part of the statement.)\<close>

theorem UdevStateChange_table:
  assumes "state m \<noteq> ActivatingState"
  shows "\<exists>m'. emitEvent env (UdevStateChangeEvent devState) m = Inr m'
    \<and> state m' =
        (case state m of
           WaitingForGadgetState p \<Rightarrow>
             if devState = inserted
             then if usbGadgetConfigure env inserted = 0 then ActiveState p
                  else ReadyState (Some \<lparr>code = device_or_resource_busy,
                                        message = ''Unable to configure gadget''\<rparr>)
             else ReadyState (Some \<lparr>code = operation_not_supported,
                                   message = drop (devStateInt env devState)
                                               ''Unexpected udev event: ''\<rparr>)
         | s \<Rightarrow> s)"
  using assms
  by (cases "state m") (simp_all add: emitEvent_unfold ReadyError_def Let_def)

text \<open>Witness for C8: \<^verbatim>\<open>removed\<close> applied to the active proxy slot leaves it
  \<^verbatim>\<open>Active\<close>; \<^verbatim>\<open>inserted\<close> applied to the waiting proxy slot makes it
  \<^verbatim>\<open>Active\<close>.\<close>

theorem UdevStateChange_table_witness:
  "state proxy_active = ActiveState (Some 7)
   \<and> (\<exists>m'. emitEvent env_ok (UdevStateChangeEvent removed) proxy_active = Inr m'
         \<and> state m' = ActiveState (Some 7))
   \<and> state proxy_waiting = WaitingForGadgetState (Some 7)
   \<and> (\<exists>m'. emitEvent env_ok (UdevStateChangeEvent inserted) proxy_waiting = Inr m'
         \<and> state m' = ActiveState (Some 7))"
proof -
  have a: "state proxy_active = ActiveState (Some 7)"
    by (simp add: fixture_defs)
  have w: "state proxy_waiting = WaitingForGadgetState (Some 7)"
    by (simp add: fixture_defs)
  have g: "usbGadgetConfigure env_ok inserted = 0"
    by (simp add: env_ok_def)
  have na: "state proxy_active \<noteq> ActivatingState" using a by simp
  have nw: "state proxy_waiting \<noteq> ActivatingState" using w by simp
  have 1: "\<exists>m'. emitEvent env_ok (UdevStateChangeEvent removed) proxy_active = Inr m'
         \<and> state m' = ActiveState (Some 7)"
    using UdevStateChange_table [OF na, of env_ok removed] a by simp
  have 2: "\<exists>m'. emitEvent env_ok (UdevStateChangeEvent inserted) proxy_waiting = Inr m'
         \<and> state m' = ActiveState (Some 7)"
    using UdevStateChange_table [OF nw, of env_ok inserted] w g by simp
  show ?thesis
    by (intro conjI) (rule a 1 w 2)+
qed

subsection \<open>C9: Redfish events\<close>

text \<open>C9. The Redfish events an applied event sends are exactly these, against the
  object path of the slot: one \<^verbatim>\<open>RESOURCE_CREATED\<close> when the event takes the slot into
  \<^verbatim>\<open>Active\<close>; one \<^verbatim>\<open>RESOURCE_DELETED\<close> when the event is \<^verbatim>\<open>Unmount\<close>, applied in
  \<^verbatim>\<open>Active\<close>, unless it is itself a transition to \<^verbatim>\<open>Ready\<close> with an error; none
  otherwise. An event that leaves the slot in \<^verbatim>\<open>Ready\<close>, with or without an error,
  sends none. An \<^verbatim>\<open>Unmount\<close> applied in \<^verbatim>\<open>Active\<close> ends in \<^verbatim>\<open>Ready\<close> exactly when
  the gadget cannot be removed, and then with the error
  \<^verbatim>\<open>device_or_resource_busy\<close>.\<close>

theorem redfish_events:
  assumes "emitEvent env event m = Inr m'"
  shows "sent (effects m') = sent (effects m) @
           (if \<not> is_Active (state m) \<and> is_Active (state m')
            then [(RESOURCE_CREATED, getObjectPath m @ name m)]
            else if event = UnmountEvent \<and> is_Active (state m) \<and> \<not> is_Ready (state m')
            then [(RESOURCE_DELETED, getObjectPath m @ name m)]
            else [])
       \<and> (is_Ready (state m') \<longrightarrow> sent (effects m') = sent (effects m))
       \<and> (event = UnmountEvent \<and> is_Active (state m) \<longrightarrow>
            (is_Ready (state m') \<longleftrightarrow> usbGadgetConfigure env removed \<noteq> 0))
       \<and> (event = UnmountEvent \<and> is_Active (state m) \<and> is_Ready (state m') \<longrightarrow>
            state m' = ReadyState (Some \<lparr>code = device_or_resource_busy,
                                          message = ''Unable to unmount gadget''\<rparr>))"
proof -
  have s: "sent (effects m') = sent (effects m) @
           (if \<not> is_Active (state m) \<and> is_Active (state m')
            then [(RESOURCE_CREATED, getObjectPath m @ name m)]
            else if event = UnmountEvent \<and> is_Active (state m) \<and> \<not> is_Ready (state m')
            then [(RESOURCE_DELETED, getObjectPath m @ name m)]
            else [])"
    using emitEvent_sent [OF assms] .
  have r: "is_Ready (state m') \<Longrightarrow> sent (effects m') = sent (effects m)"
    using s by (cases "state m'") (simp_all add: is_Ready_def is_Active_def)
  have u: "is_Ready (state m') \<longleftrightarrow> usbGadgetConfigure env removed \<noteq> 0"
    if "event = UnmountEvent" and "is_Active (state m)"
    using that assms
    by (cases "state m")
       (auto simp: emitEvent_unfold is_Active_def is_Ready_def split_beta ReadyError_def
          split: if_splits)
  have b: "state m' = ReadyState (Some \<lparr>code = device_or_resource_busy,
                                          message = ''Unable to unmount gadget''\<rparr>)"
    if "event = UnmountEvent" and "is_Active (state m)" and "is_Ready (state m')"
    using that assms
    by (cases "state m"; cases "usbGadgetConfigure env removed = 0")
       (auto simp: emitEvent_unfold is_Active_def is_Ready_def split_beta ReadyError_def)
  from s r u b show ?thesis by blast
qed

text \<open>Witness for C9: the gadget of the waiting proxy slot appears (created); the
  active proxy slot is unmounted (deleted); the active proxy slot is unmounted while the
  gadget is busy (a transition to \<^verbatim>\<open>Ready\<close> with an error: nothing).\<close>

theorem redfish_events_witness:
  "emitEvent env_ok (UdevStateChangeEvent inserted) proxy_waiting = Inr proxy_active
   \<and> sent (effects proxy_active)
       = [(RESOURCE_CREATED, ''/xyz/openbmc_project/VirtualMedia/Proxy/Slot_0'')]
   \<and> emitEvent env_ok UnmountEvent proxy_active
       = Inr (proxy_active\<lparr>state := WaitingForProcessEndState (Some 7),
                effects := effects proxy_active @
                  [UsbGadgetConfigure removed None, StopProcess 7,
                   SendEvent RESOURCE_DELETED
                     ''/xyz/openbmc_project/VirtualMedia/Proxy/Slot_0'']\<rparr>)
   \<and> is_Active (state proxy_active)
   \<and> usbGadgetConfigure env_ok removed = 0
   \<and> sent (effects proxy_active @
             [UsbGadgetConfigure removed None, StopProcess 7,
              SendEvent RESOURCE_DELETED
                ''/xyz/openbmc_project/VirtualMedia/Proxy/Slot_0''])
       = [(RESOURCE_CREATED, ''/xyz/openbmc_project/VirtualMedia/Proxy/Slot_0''),
          (RESOURCE_DELETED, ''/xyz/openbmc_project/VirtualMedia/Proxy/Slot_0'')]
   \<and> emitEvent env_busy UnmountEvent proxy_active
       = Inr (proxy_active\<lparr>state := ReadyState
                (Some \<lparr>code = device_or_resource_busy,
                       message = ''Unable to unmount gadget''\<rparr>),
              effects := effects proxy_active @ [UsbGadgetConfigure removed None]\<rparr>)
   \<and> usbGadgetConfigure env_busy removed \<noteq> 0
   \<and> sent (effects proxy_active @ [UsbGadgetConfigure removed None])
       = sent (effects proxy_active)"
proof -
  let ?w = "proxy_active\<lparr>state := WaitingForProcessEndState (Some 7),
                effects := effects proxy_active @
                  [UsbGadgetConfigure removed None, StopProcess 7,
                   SendEvent RESOURCE_DELETED
                     ''/xyz/openbmc_project/VirtualMedia/Proxy/Slot_0'']\<rparr>"
  let ?r = "proxy_active\<lparr>state := ReadyState
                (Some \<lparr>code = device_or_resource_busy,
                       message = ''Unable to unmount gadget''\<rparr>),
              effects := effects proxy_active @ [UsbGadgetConfigure removed None]\<rparr>"
  have p: "getObjectPath proxy_active @ name proxy_active
      = ''/xyz/openbmc_project/VirtualMedia/Proxy/Slot_0''"
    "getObjectPath proxy_waiting @ name proxy_waiting
      = ''/xyz/openbmc_project/VirtualMedia/Proxy/Slot_0''"
    by (simp_all add: fixture_defs getObjectPath_def proxyObjectPath_def)
  have sw: "sent (effects proxy_waiting) = []"
    by (simp add: fixture_defs)
  have st: "\<not> is_Active (state proxy_waiting)" "is_Active (state proxy_active)"
    "\<not> is_Ready (state ?w)" "is_Ready (state ?r)"
    by (simp_all add: fixture_defs is_Active_def is_Ready_def)
  have g: "usbGadgetConfigure env_ok removed = 0" "usbGadgetConfigure env_busy removed \<noteq> 0"
    by (simp_all add: fixture_defs)
  have a: "emitEvent env_ok (UdevStateChangeEvent inserted) proxy_waiting = Inr proxy_active"
    by (simp add: emitEvent_unfold fixture_defs machine_defs)
  have b: "emitEvent env_ok UnmountEvent proxy_active = Inr ?w"
    by (simp add: emitEvent_unfold fixture_defs machine_defs)
  have c: "emitEvent env_busy UnmountEvent proxy_active = Inr ?r"
    by (simp add: emitEvent_unfold fixture_defs machine_defs)
  have 1: "sent (effects proxy_active)
       = [(RESOURCE_CREATED, ''/xyz/openbmc_project/VirtualMedia/Proxy/Slot_0'')]"
    using redfish_events [OF a, THEN conjunct1] st(1,2) sw p(2) by simp
  have "sent (effects ?w) = sent (effects proxy_active) @
       [(RESOURCE_DELETED, ''/xyz/openbmc_project/VirtualMedia/Proxy/Slot_0'')]"
    using redfish_events [OF b, THEN conjunct1] st(2,3) p(1) by simp
  then have 2: "sent (effects ?w)
       = [(RESOURCE_CREATED, ''/xyz/openbmc_project/VirtualMedia/Proxy/Slot_0''),
          (RESOURCE_DELETED, ''/xyz/openbmc_project/VirtualMedia/Proxy/Slot_0'')]"
    using 1 by simp
  have 3: "sent (effects ?r) = sent (effects proxy_active)"
    using redfish_events [OF c, THEN conjunct2, THEN conjunct1] st(4) by (rule mp)
  have d2: "sent (effects proxy_active @
             [UsbGadgetConfigure removed None, StopProcess 7,
              SendEvent RESOURCE_DELETED
                ''/xyz/openbmc_project/VirtualMedia/Proxy/Slot_0''])
       = [(RESOURCE_CREATED, ''/xyz/openbmc_project/VirtualMedia/Proxy/Slot_0''),
          (RESOURCE_DELETED, ''/xyz/openbmc_project/VirtualMedia/Proxy/Slot_0'')]"
    using 2 by simp
  have d3: "sent (effects proxy_active @ [UsbGadgetConfigure removed None])
       = sent (effects proxy_active)"
    using 3 by simp
  show ?thesis
    by (intro conjI) (rule a 1 b st(2) g d2 c d3)+
qed

end
